theory Spec2Isabelle
  imports Complex_Main "HOL-Library.Multiset"
begin

section \<open>Python values, dictionaries and exceptions\<close>

text \<open>
  The decision engine of PAMS (\<^verbatim>\<open>backend/ml/decision_engine.py\<close>) passes alerts around
  as Python dictionaries. A dictionary is a map from keys to values of the type
  \<open>pyval\<close>. Numbers are exact rationals (Python's \<^verbatim>\<open>int\<close> and \<^verbatim>\<open>float\<close> without rounding
  error, NaN or infinities), a naive \<^verbatim>\<open>datetime\<close> is its number of microseconds since the
  epoch, strings are byte strings.
\<close>

datatype pyval =
    VNone
  | VBool bool
  | VNum rat
  | VStr string
  | VTime int
  | VList "pyval list"
  | VDict "(string \<times> pyval) list"

datatype error = TypeError | ValueError | AttributeError | KeyError | ZeroDivisionError

type_synonym pydict = "string \<rightharpoonup> pyval"

text \<open>
  What the code takes from its runtime: the successive readings of \<^verbatim>\<open>datetime.utcnow()\<close>
  (\<open>utcnow w n\<close> is the value returned by the \<open>n\<close>-th call from now on),
  \<^verbatim>\<open>datetime.fromisoformat\<close> (\<open>None\<close> where it raises \<^verbatim>\<open>ValueError\<close>),
  \<^verbatim>\<open>datetime.isoformat\<close>, \<^verbatim>\<open>str\<close> of a value that is not a string, and \<^verbatim>\<open>str\<close> of an
  exception.
\<close>

record world =
  utcnow :: "nat \<Rightarrow> int"
  fromisoformat :: "string \<Rightarrow> int option"
  isoformat :: "int \<Rightarrow> string"
  str_of :: "pyval \<Rightarrow> string"
  exc_text :: "error \<Rightarrow> string"

definition after :: "nat \<Rightarrow> world \<Rightarrow> world" where
  \<comment> \<open>the runtime once \<open>k\<close> readings of the clock have been consumed\<close>
  "after k w = w\<lparr>utcnow := (\<lambda>n. utcnow w (n + k))\<rparr>"

definition and_then :: "error + 'a \<Rightarrow> ('a \<Rightarrow> error + 'b) \<Rightarrow> error + 'b" where
  "and_then r f = (case r of Inl e \<Rightarrow> Inl e | Inr x \<Rightarrow> f x)"

definition get :: "pydict \<Rightarrow> string \<Rightarrow> pyval \<Rightarrow> pyval" where
  \<comment> \<open>\<^verbatim>\<open>d.get(k, default)\<close>\<close>
  "get d k dflt = (case d k of None \<Rightarrow> dflt | Some v \<Rightarrow> v)"

definition item :: "pydict \<Rightarrow> string \<Rightarrow> error + pyval" where
  \<comment> \<open>\<^verbatim>\<open>d[k]\<close>\<close>
  "item d k = (case d k of None \<Rightarrow> Inl KeyError | Some v \<Rightarrow> Inr v)"

fun num_of :: "pyval \<Rightarrow> rat option" where
  "num_of (VNum r) = Some r"
| "num_of (VBool b) = Some (if b then 1 else 0)"
| "num_of _ = None"

definition to_num :: "pyval \<Rightarrow> error + rat" where
  \<comment> \<open>an operand of float arithmetic: anything that is not a number raises \<^verbatim>\<open>TypeError\<close>\<close>
  "to_num v = (case num_of v of None \<Rightarrow> Inl TypeError | Some r \<Rightarrow> Inr r)"

fun truthy :: "pyval \<Rightarrow> bool" where
  "truthy VNone = False"
| "truthy (VBool b) = b"
| "truthy (VNum r) = (r \<noteq> 0)"
| "truthy (VStr s) = (s \<noteq> [])"
| "truthy (VTime t) = True"
| "truthy (VList xs) = (xs \<noteq> [])"
| "truthy (VDict kvs) = (kvs \<noteq> [])"

fun py_eq :: "pyval \<Rightarrow> pyval \<Rightarrow> bool" where
  \<comment> \<open>\<^verbatim>\<open>a == b\<close>; \<^verbatim>\<open>True == 1\<close>; nested dictionaries are compared by their item lists\<close>
  "py_eq (VList xs) (VList ys) = list_all2 py_eq xs ys"
| "py_eq a b =
     (case (num_of a, num_of b) of
        (Some x, Some y) \<Rightarrow> x = y
      | (None, None) \<Rightarrow> a = b
      | _ \<Rightarrow> False)"

fun str_gt :: "string \<Rightarrow> string \<Rightarrow> bool" where
  "str_gt [] t = False"
| "str_gt (c # cs) [] = True"
| "str_gt (c # cs) (d # ds) =
     (if c = d then str_gt cs ds else (of_char d :: nat) < of_char c)"

fun py_gt :: "pyval \<Rightarrow> pyval \<Rightarrow> error + bool"
  and py_gt_list :: "pyval list \<Rightarrow> pyval list \<Rightarrow> error + bool" where
  \<comment> \<open>\<^verbatim>\<open>a > b\<close>: numbers, strings, datetimes and lists are ordered among themselves\<close>
  "py_gt (VList xs) (VList ys) = py_gt_list xs ys"
| "py_gt (VStr s) (VStr t) = Inr (str_gt s t)"
| "py_gt (VTime x) (VTime y) = Inr (y < x)"
| "py_gt a b =
     (case (num_of a, num_of b) of
        (Some x, Some y) \<Rightarrow> Inr (y < x)
      | _ \<Rightarrow> Inl TypeError)"
| "py_gt_list [] ys = Inr False"
| "py_gt_list (x # xs) [] = Inr True"
| "py_gt_list (x # xs) (y # ys) = (if py_eq x y then py_gt_list xs ys else py_gt x y)"

definition lower_char :: "char \<Rightarrow> char" where
  "lower_char c =
     (let n = (of_char c :: nat) in if 65 \<le> n \<and> n \<le> 90 then char_of (n + 32) else c)"

definition lower :: "string \<Rightarrow> string" where
  \<comment> \<open>\<^verbatim>\<open>str.lower\<close> on ASCII\<close>
  "lower s = map lower_char s"

definition str_lower :: "pyval \<Rightarrow> error + string" where
  \<comment> \<open>\<^verbatim>\<open>v.lower()\<close>: only a string has the method\<close>
  "str_lower v = (case v of VStr s \<Rightarrow> Inr (lower s) | _ \<Rightarrow> Inl AttributeError)"

definition lookup :: "(string \<rightharpoonup> 'a) \<Rightarrow> pyval \<Rightarrow> 'a \<Rightarrow> error + 'a" where
  \<comment> \<open>\<^verbatim>\<open>table.get(v, default)\<close> on a table with string keys: a list or a dictionary is
      not hashable, any other value that is not a key gives the default\<close>
  "lookup table v dflt =
     (case v of
        VStr s \<Rightarrow> Inr (case table s of None \<Rightarrow> dflt | Some x \<Rightarrow> x)
      | VList xs \<Rightarrow> Inl TypeError
      | VDict kvs \<Rightarrow> Inl TypeError
      | _ \<Rightarrow> Inr dflt)"

definition round_half_even :: "rat \<Rightarrow> int" where
  \<comment> \<open>the nearest integer, a tie to the even one\<close>
  "round_half_even y =
     (let f = \<lfloor>y\<rfloor>; d = y - of_int f
      in if d < 1 / 2 then f
         else if 1 / 2 < d then f + 1
         else if even f then f else f + 1)"

definition py_round :: "rat \<Rightarrow> nat \<Rightarrow> rat" where
  \<comment> \<open>\<^verbatim>\<open>round(x, n)\<close>: to the nearest multiple of \<open>10\<^sup>-\<^sup>n\<close>\<close>
  "py_round x n = of_int (round_half_even (x * 10 ^ n)) / 10 ^ n"

definition as_datetime :: "world \<Rightarrow> pyval \<Rightarrow> error + pyval" where
  \<comment> \<open>\<^verbatim>\<open>if isinstance(t, str): t = datetime.fromisoformat(t)\<close>\<close>
  "as_datetime w v =
     (case v of
        VStr s \<Rightarrow> (case fromisoformat w s of None \<Rightarrow> Inl ValueError | Some t \<Rightarrow> Inr (VTime t))
      | _ \<Rightarrow> Inr v)"

definition time_diff :: "pyval \<Rightarrow> pyval \<Rightarrow> error + int" where
  \<comment> \<open>the microseconds of \<^verbatim>\<open>a - b\<close> as read by \<^verbatim>\<open>.total_seconds()\<close>: two numbers
      subtract to a number, which has no such method\<close>
  "time_diff a b =
     (case (a, b) of
        (VTime x, VTime y) \<Rightarrow> Inr (x - y)
      | _ \<Rightarrow> if num_of a \<noteq> None \<and> num_of b \<noteq> None then Inl AttributeError
             else Inl TypeError)"

definition hours :: "int \<Rightarrow> rat" where
  \<comment> \<open>\<^verbatim>\<open>.total_seconds() / 3600\<close> of a difference in microseconds\<close>
  "hours us = of_int us / 3600000000"

definition hours_us :: "int \<Rightarrow> int" where
  \<comment> \<open>\<^verbatim>\<open>timedelta(hours=h)\<close> in microseconds\<close>
  "hours_us h = h * 3600000000"

section \<open>Risk scoring (\<^verbatim>\<open>RiskScoreCalculator\<close>, \<^verbatim>\<open>AlertScorer\<close>)\<close>

definition severity_weights :: "string \<rightharpoonup> rat" where
  "severity_weights =
     map_of [(''critical'', 1), (''high'', 3 / 4), (''medium'', 1 / 2), (''low'', 1 / 4)]"

definition weight_of :: "string \<Rightarrow> rat" where
  \<comment> \<open>\<^verbatim>\<open>severity_weights.get(s, 0.5)\<close>\<close>
  "weight_of s = (case severity_weights s of None \<Rightarrow> 1 / 2 | Some x \<Rightarrow> x)"

definition weighted_sum :: "rat \<Rightarrow> rat \<Rightarrow> rat \<Rightarrow> rat \<Rightarrow> rat \<Rightarrow> rat" where
  \<comment> \<open>the score before rounding (classification.py, lines 297 to 302)\<close>
  "weighted_sum severity_score likelihood impact confidence time_sensitivity =
     (severity_score * (3 / 10) + likelihood * (1 / 4) + impact * (1 / 4)
        + confidence * (1 / 5)) * time_sensitivity"

definition determine_priority :: "rat \<Rightarrow> string \<times> string" where
  \<comment> \<open>the tier and its label (classification.py, lines 304 to 316)\<close>
  "determine_priority composite_score =
     (if 4 / 5 \<le> composite_score then (''p1'', ''Critical - Immediate Action'')
      else if 3 / 5 \<le> composite_score then (''p2'', ''High - Action Required'')
      else if 2 / 5 \<le> composite_score then (''p3'', ''Medium - Monitor Closely'')
      else (''p4'', ''Low - Routine Review''))"

definition calculate_composite_risk ::
  "pyval \<Rightarrow> pyval \<Rightarrow> pyval \<Rightarrow> pyval \<Rightarrow> pyval \<Rightarrow> error + pydict" where
  "calculate_composite_risk severity likelihood impact confidence time_sensitivity =
     and_then (str_lower severity) (\<lambda>sev.
     and_then (to_num likelihood) (\<lambda>l.
     and_then (to_num impact) (\<lambda>i.
     and_then (to_num confidence) (\<lambda>c.
     and_then (to_num time_sensitivity) (\<lambda>ts.
       let severity_score = weight_of sev;
           composite_score = weighted_sum severity_score l i c ts;
           (priority, priority_label) = determine_priority composite_score
       in Inr [''composite_score'' \<mapsto> VNum (py_round composite_score 3),
               ''priority'' \<mapsto> VStr priority,
               ''priority_label'' \<mapsto> VStr priority_label,
               ''components'' \<mapsto> VDict [(''severity'', VNum severity_score),
                                          (''likelihood'', likelihood),
                                          (''impact'', impact),
                                          (''confidence'', confidence),
                                          (''time_sensitivity'', time_sensitivity)]])))))"

definition score_alert :: "world \<Rightarrow> pydict \<Rightarrow> error + pydict" where
  \<comment> \<open>the body of the \<^verbatim>\<open>try\<close> block of \<^verbatim>\<open>calculate_alert_score\<close>\<close>
  "score_alert w alert =
     (let severity = get alert ''severity'' (VStr ''low'');
          confidence = get alert ''confidence'' (VNum (1 / 2));
          impact_score = get alert ''impact_score'' (VNum (1 / 2));
          likelihood = get alert ''likelihood'' (VNum (1 / 2))
      in and_then (as_datetime w (get alert ''created_at'' (VTime (utcnow w 0)))) (\<lambda>created_at.
         and_then (time_diff (VTime (utcnow w 1)) created_at) (\<lambda>us.
           let age_hours = hours us;
               time_sensitivity = max (1 / 2) (1 - age_hours / 168)
           in and_then (calculate_composite_risk severity likelihood impact_score confidence
                          (VNum time_sensitivity)) (\<lambda>risk_result.
                Inr (risk_result(''age_hours'' \<mapsto> VNum age_hours,
                                 ''category'' \<mapsto> get alert ''category'' (VStr ''unknown''),
                                 ''source'' \<mapsto> get alert ''source'' (VStr ''unknown'')))))))"

definition calculate_alert_score :: "world \<Rightarrow> pydict \<Rightarrow> error + pydict" where
  \<comment> \<open>\<open>Inl\<close> would be an exception leaving the function; \<^verbatim>\<open>except Exception\<close> turns
      every exception of the body into the neutral result\<close>
  "calculate_alert_score w alert =
     (case score_alert w alert of
        Inr risk_result \<Rightarrow> Inr risk_result
      | Inl e \<Rightarrow> Inr [''composite_score'' \<mapsto> VNum (1 / 2),
                      ''priority'' \<mapsto> VStr ''p3'',
                      ''priority_label'' \<mapsto> VStr ''Error in scoring'',
                      ''error'' \<mapsto> VStr (exc_text w e)])"






section \<open>Deduplication (\<^verbatim>\<open>AlertDeduplicator\<close>)\<close>


definition severity_order :: "string \<rightharpoonup> int" where
  "severity_order = map_of [(''critical'', 4), (''high'', 3), (''medium'', 2), (''low'', 1)]"

definition format_value :: "world \<Rightarrow> pyval \<Rightarrow> string" where
  \<comment> \<open>a value inside an f-string\<close>
  "format_value w v = (case v of VStr s \<Rightarrow> s | _ \<Rightarrow> str_of w v)"

definition iadd_str :: "pyval \<Rightarrow> string \<Rightarrow> error + pyval" where
  \<comment> \<open>\<^verbatim>\<open>x += t\<close> for a string \<open>t\<close>: a string is extended, a list takes the characters\<close>
  "iadd_str x t =
     (case x of
        VStr s \<Rightarrow> Inr (VStr (s @ t))
      | VList xs \<Rightarrow> Inr (VList (xs @ map (\<lambda>c. VStr [c]) t))
      | _ \<Rightarrow> Inl TypeError)"

definition add_list :: "pyval \<Rightarrow> pyval list \<Rightarrow> error + pyval" where
  \<comment> \<open>\<^verbatim>\<open>x + [..]\<close>: only a list can be added to a list\<close>
  "add_list x ys = (case x of VList xs \<Rightarrow> Inr (VList (xs @ ys)) | _ \<Rightarrow> Inl TypeError)"

definition merge_alerts :: "world \<Rightarrow> pydict \<Rightarrow> pydict \<Rightarrow> error + pydict" where
  "merge_alerts w primary duplicate =
     (let merged = primary
      in and_then (lookup severity_order (get duplicate ''severity'' (VStr ''low'')) 0) (\<lambda>rank_d.
         and_then (lookup severity_order (get primary ''severity'' (VStr ''low'')) 0) (\<lambda>rank_p.
         and_then (if rank_p < rank_d
                   then and_then (item duplicate ''severity'') (\<lambda>v.
                          Inr (merged(''severity'' \<mapsto> v)))
                   else Inr merged) (\<lambda>merged.
         and_then (py_gt (get duplicate ''confidence'' (VNum 0))
                         (get primary ''confidence'' (VNum 0))) (\<lambda>higher.
         and_then (if higher
                   then and_then (item duplicate ''confidence'') (\<lambda>v.
                          Inr (merged(''confidence'' \<mapsto> v)))
                   else Inr merged) (\<lambda>merged.
         and_then (if truthy (get duplicate ''description'' VNone)
                   then and_then (item merged ''description'') (\<lambda>old.
                        and_then (item duplicate ''description'') (\<lambda>d.
                        and_then (iadd_str old (CHR 0x0A # ''[Merged] '' @ format_value w d))
                          (\<lambda>new. Inr (merged(''description'' \<mapsto> new)))))
                   else Inr merged) (\<lambda>merged.
         and_then (add_list (get merged ''merged_alert_ids'' (VList []))
                            [get duplicate ''id'' VNone]) (\<lambda>ids.
           Inr (merged(''merged_alert_ids'' \<mapsto> ids))))))))))"

definition merge_both :: "world \<Rightarrow> pydict \<Rightarrow> pydict \<Rightarrow> pydict \<Rightarrow> error + pydict" where
  \<comment> \<open>two duplicates merged into the same primary, one after the other\<close>
  "merge_both w primary d1 d2 = and_then (merge_alerts w primary d1) (\<lambda>m. merge_alerts w m d2)"

section \<open>Enrichment (\<^verbatim>\<open>AlertEnricher\<close>)\<close>

definition enrich_with_product_context :: "pydict \<Rightarrow> pydict \<Rightarrow> error + pydict" where
  "enrich_with_product_context alert product =
     (let enriched = alert(''product_name'' \<mapsto> get product ''name'' VNone,
                           ''product_sku'' \<mapsto> get product ''sku'' VNone,
                           ''product_category'' \<mapsto> get product ''category'' VNone,
                           ''current_stock'' \<mapsto> get product ''current_stock'' VNone,
                           ''reorder_point'' \<mapsto> get product ''reorder_point'' VNone)
      in if truthy (get product ''current_stock'' VNone)
            \<and> truthy (get product ''reorder_point'' VNone)
         then and_then (item product ''current_stock'') (\<lambda>current_stock.
              and_then (item product ''reorder_point'') (\<lambda>reorder_point.
              and_then (to_num reorder_point) (\<lambda>r.
              and_then (to_num current_stock) (\<lambda>c.
                if r + 1 / 100 = 0 then Inl ZeroDivisionError
                else let stock_ratio = c / (r + 1 / 100)
                     in Inr (enriched(''stock_health'' \<mapsto>
                               VStr (if stock_ratio < 1 / 2 then ''critical''
                                     else if stock_ratio < 1 then ''warning''
                                     else ''healthy'')))))))
         else Inr enriched)"

fun resolution_times :: "world \<Rightarrow> pydict list \<Rightarrow> error + rat list" where
  "resolution_times w [] = Inr []"
| "resolution_times w (h # hs) =
     (let created = get h ''created_at'' VNone;
          resolved_at = get h ''resolved_at'' VNone
      in if truthy created \<and> truthy resolved_at
         then and_then (as_datetime w created) (\<lambda>created.
              and_then (as_datetime w resolved_at) (\<lambda>resolved_at.
              and_then (time_diff resolved_at created) (\<lambda>us.
              and_then (resolution_times w hs) (\<lambda>ts. Inr (hours us # ts)))))
         else resolution_times w hs)"

definition enrich_with_historical_context ::
  "world \<Rightarrow> pydict \<Rightarrow> pydict list \<Rightarrow> error + pydict" where
  "enrich_with_historical_context w alert history =
     (let similar_count =
            length (filter (\<lambda>h. py_eq (get h ''category'' VNone) (get alert ''category'' VNone))
                      history);
          enriched = alert(''similar_alerts_past_30_days'' \<mapsto> VNum (of_nat similar_count),
                           ''is_recurring'' \<mapsto> VBool (2 < similar_count));
          resolved = filter (\<lambda>h. py_eq (get h ''status'' VNone) (VStr ''resolved'')
                                  \<and> truthy (get h ''resolved_at'' VNone)) history
      in if resolved \<noteq> []
         then and_then (resolution_times w resolved) (\<lambda>ts.
                if ts \<noteq> []
                then Inr (enriched(''avg_resolution_hours'' \<mapsto>
                            VNum (sum_list ts / of_nat (length ts))))
                else Inr enriched)
         else Inr enriched)"

section \<open>SLA deadlines and escalation (\<^verbatim>\<open>SLAManager\<close>)\<close>

definition SLA_TARGETS :: "string \<rightharpoonup> int" where
  "SLA_TARGETS = map_of [(''p1'', 4), (''p2'', 24), (''p3'', 72), (''p4'', 168)]"

definition add_hours :: "pyval \<Rightarrow> int \<Rightarrow> error + int" where
  \<comment> \<open>\<^verbatim>\<open>t + timedelta(hours=h)\<close>: only a datetime can take a timedelta\<close>
  "add_hours t h = (case t of VTime x \<Rightarrow> Inr (x + hours_us h) | _ \<Rightarrow> Inl TypeError)"

definition calculate_sla_deadline :: "world \<Rightarrow> pydict \<Rightarrow> error + int" where
  "calculate_sla_deadline w alert =
     (let priority = get alert ''priority'' (VStr ''p3'');
          created_at = get alert ''created_at'' (VTime (utcnow w 0))
      in and_then (as_datetime w created_at) (\<lambda>created_at.
         and_then (lookup SLA_TARGETS priority 72) (\<lambda>sla_hours.
           add_hours created_at sla_hours)))"

definition check_sla_breach :: "world \<Rightarrow> pydict \<Rightarrow> error + pydict" where
  \<comment> \<open>the deadline's default consumes one reading; \<open>now\<close> is the next\<close>
  "check_sla_breach w alert =
     and_then (calculate_sla_deadline w alert) (\<lambda>deadline.
       let now = utcnow w 1;
           time_remaining = hours (deadline - now);
           (sla_status, breach_risk) =
              (if time_remaining < 0 then (''breached'', ''high'')
               else if time_remaining < 2 then (''critical'', ''high'')
               else if time_remaining < 12 then (''warning'', ''medium'')
               else (''ok'', ''low''))
       in Inr [''sla_status'' \<mapsto> VStr sla_status,
               ''sla_deadline'' \<mapsto> VStr (isoformat w deadline),
               ''time_remaining_hours'' \<mapsto> VNum (py_round time_remaining 2),
               ''breach_risk'' \<mapsto> VStr breach_risk])"

definition determine_escalation :: "world \<Rightarrow> pydict \<Rightarrow> error + pyval" where
  \<comment> \<open>Python's \<^verbatim>\<open>None\<close> is \<open>VNone\<close>\<close>
  "determine_escalation w alert =
     and_then (check_sla_breach w alert) (\<lambda>sla_check.
       let priority = get alert ''priority'' (VStr ''p3'')
       in and_then (item sla_check ''sla_status'') (\<lambda>sla_status.
          and_then (item sla_check ''breach_risk'') (\<lambda>breach_risk.
            if py_eq priority (VStr ''p1'')
            then (if py_eq sla_status (VStr ''breached'') then Inr (VStr ''executive'')
                  else if py_eq sla_status (VStr ''critical'') then Inr (VStr ''director'')
                  else Inr (VStr ''manager''))
            else if py_eq priority (VStr ''p2'')
            then (if py_eq breach_risk (VStr ''high'') then Inr (VStr ''director'')
                  else if py_eq breach_risk (VStr ''medium'') then Inr (VStr ''manager'')
                  else Inr VNone)
            else if py_eq priority (VStr ''p3'')
            then (if py_eq sla_status (VStr ''breached'') then Inr (VStr ''manager'')
                  else Inr VNone)
            else Inr VNone)))"

section \<open>The pipeline (\<^verbatim>\<open>DecisionEngine\<close>)\<close>

definition generate_recommendations :: "pydict \<Rightarrow> string list" where
  "generate_recommendations alert =
     (let priority = get alert ''priority'' (VStr ''p3'');
          category = get alert ''category'' (VStr [])
      in (if py_eq priority (VStr ''p1'')
          then [''Immediate investigation required'', ''Notify relevant stakeholders'']
          else [])
         @ (if py_eq category (VStr ''quality'')
            then [''Review recent quality inspection reports'',
                  ''Check batch/lot numbers for affected products'']
            else if py_eq category (VStr ''supply'')
            then [''Contact supplier for status update'',
                  ''Identify alternative suppliers if needed'']
            else if py_eq category (VStr ''demand'')
            then [''Adjust inventory orders'', ''Review demand forecast models'']
            else [])
         @ (if py_eq (get alert ''stock_health'' VNone) (VStr ''critical'')
            then [''Expedite reorder or switch to backup supplier'']
            else [])
         @ (if truthy (get alert ''is_recurring'' VNone)
            then [''Investigate root cause (recurring issue)'']
            else []))"

definition process_alert ::
  "world \<Rightarrow> pydict \<Rightarrow> pydict option \<Rightarrow> pydict list option \<Rightarrow> error + pydict" where
  \<comment> \<open>scoring reads the clock twice, the deadline once, each SLA check twice\<close>
  "process_alert w alert product history =
     and_then (calculate_alert_score w alert) (\<lambda>score_result.
     and_then (case product of
                 None \<Rightarrow> Inr (alert ++ score_result)
               | Some p \<Rightarrow> if p = Map.empty then Inr (alert ++ score_result)
                           else enrich_with_product_context (alert ++ score_result) p)
       (\<lambda>processed.
     and_then (case history of
                 None \<Rightarrow> Inr processed
               | Some hs \<Rightarrow> if hs = [] then Inr processed
                            else enrich_with_historical_context w processed hs)
       (\<lambda>processed.
     and_then (calculate_sla_deadline (after 2 w) processed) (\<lambda>sla_deadline.
     and_then (check_sla_breach (after 3 w) processed) (\<lambda>sla_check.
       let processed = processed(''sla_deadline'' \<mapsto> VTime sla_deadline) ++ sla_check
       in and_then (determine_escalation (after 5 w) processed) (\<lambda>escalation_level.
            let processed = processed(''escalation_level'' \<mapsto> escalation_level,
                                      ''requires_escalation'' \<mapsto>
                                         VBool (escalation_level \<noteq> VNone))
            in Inr (processed(''recommended_actions'' \<mapsto>
                      VList (map VStr (generate_recommendations processed))))))))))"

section \<open>Observations and reference definitions\<close>

definition field :: "error + pydict \<Rightarrow> string \<Rightarrow> pyval option" where
  \<comment> \<open>a key of the returned dictionary; nothing when the call raised\<close>
  "field r k = (case r of Inl e \<Rightarrow> None | Inr d \<Rightarrow> d k)"

definition score_value :: "error + pydict \<Rightarrow> rat option" where
  \<comment> \<open>the number stored under \<^verbatim>\<open>composite_score\<close>\<close>
  "score_value r = (case field r ''composite_score'' of Some (VNum x) \<Rightarrow> Some x | _ \<Rightarrow> None)"

definition clock_world :: "(nat \<Rightarrow> int) \<Rightarrow> world" where
  \<comment> \<open>a runtime with the given clock readings, in which no string parses as a date\<close>
  "clock_world clk =
     \<lparr>utcnow = clk, fromisoformat = (\<lambda>s. None), isoformat = (\<lambda>t. []),
      str_of = (\<lambda>v. []), exc_text = (\<lambda>e. [])\<rparr>"

definition frozen_world :: world where
  \<comment> \<open>every reading of the clock is the epoch\<close>
  "frozen_world = clock_world (\<lambda>n. 0)"

definition ticking_world :: world where
  \<comment> \<open>the clock advances by one microsecond between two readings\<close>
  "ticking_world = clock_world (\<lambda>n. int n)"

definition tiers :: "string set" where
  "tiers = {''p1'', ''p2'', ''p3'', ''p4''}"

definition with_signals :: "pydict \<Rightarrow> string \<Rightarrow> rat \<Rightarrow> rat \<Rightarrow> rat \<Rightarrow> pydict" where
  \<comment> \<open>an alert with its four scoring inputs set\<close>
  "with_signals alert s l i c =
     alert(''severity'' \<mapsto> VStr s, ''likelihood'' \<mapsto> VNum l, ''impact_score'' \<mapsto> VNum i,
           ''confidence'' \<mapsto> VNum c)"


definition severity_rank :: "pydict \<Rightarrow> error + int" where
  \<comment> \<open>\<^verbatim>\<open>severity_order.get(d.get('severity', 'low'), 0)\<close>\<close>
  "severity_rank d = lookup severity_order (get d ''severity'' (VStr ''low'')) 0"

definition numeric_confidence :: "pydict \<Rightarrow> bool" where
  \<comment> \<open>the confidence is a number or is absent\<close>
  "numeric_confidence d = (d ''confidence'' = None \<or> (\<exists>x. d ''confidence'' = Some (VNum x)))"

definition confidence_of :: "pydict \<Rightarrow> rat" where
  \<comment> \<open>\<^verbatim>\<open>d.get('confidence', 0)\<close> of such an alert\<close>
  "confidence_of d = (case d ''confidence'' of Some (VNum x) \<Rightarrow> x | _ \<Rightarrow> 0)"


text \<open>
  The escalation table of the specification (section 4.5), over enumerations of its own,
  and the SLA classification of section 4.4. They are compared with
  \<open>determine_escalation\<close> and \<open>check_sla_breach\<close> below.
\<close>

datatype tier = P1 | P2 | P3 | P4
datatype sla_state = Ok | Warning | Critical | Breached
datatype risk = Low | Medium | High
datatype level = NoEscalation | Manager | Director | Executive

fun spec_escalation :: "tier \<Rightarrow> sla_state \<Rightarrow> risk \<Rightarrow> level" where
  "spec_escalation P1 Breached rk = Executive"
| "spec_escalation P1 Critical rk = Director"
| "spec_escalation P1 st rk = Manager"
| "spec_escalation P2 st High = Director"
| "spec_escalation P2 st Medium = Manager"
| "spec_escalation P2 st rk = NoEscalation"
| "spec_escalation P3 Breached rk = Manager"
| "spec_escalation P3 st rk = NoEscalation"
| "spec_escalation P4 st rk = NoEscalation"

definition spec_sla_state :: "rat \<Rightarrow> sla_state" where
  "spec_sla_state remaining =
     (if remaining < 0 then Breached else if remaining < 2 then Critical
      else if remaining < 12 then Warning else Ok)"

fun spec_breach_risk :: "sla_state \<Rightarrow> risk" where
  "spec_breach_risk Breached = High"
| "spec_breach_risk Critical = High"
| "spec_breach_risk Warning = Medium"
| "spec_breach_risk Ok = Low"

fun tier_name :: "tier \<Rightarrow> string" where
  "tier_name P1 = ''p1''"
| "tier_name P2 = ''p2''"
| "tier_name P3 = ''p3''"
| "tier_name P4 = ''p4''"

fun sla_name :: "sla_state \<Rightarrow> string" where
  "sla_name Ok = ''ok''"
| "sla_name Warning = ''warning''"
| "sla_name Critical = ''critical''"
| "sla_name Breached = ''breached''"

fun risk_name :: "risk \<Rightarrow> string" where
  "risk_name Low = ''low''"
| "risk_name Medium = ''medium''"
| "risk_name High = ''high''"

fun level_value :: "level \<Rightarrow> pyval" where
  "level_value NoEscalation = VNone"
| "level_value Manager = VStr ''manager''"
| "level_value Director = VStr ''director''"
| "level_value Executive = VStr ''executive''"

definition example_alert :: pydict where
  \<comment> \<open>the end-to-end example of the specification, created at the epoch\<close>
  "example_alert =
     [''severity'' \<mapsto> VStr ''critical'', ''category'' \<mapsto> VStr ''quality'',
      ''confidence'' \<mapsto> VNum (89 / 100), ''impact_score'' \<mapsto> VNum (85 / 100),
      ''likelihood'' \<mapsto> VNum (4 / 5), ''created_at'' \<mapsto> VTime 0]"

section \<open>Basic facts\<close>

lemma lower_known [simp]:
  "lower ''critical'' = ''critical''" "lower ''high'' = ''high''"
  "lower ''medium'' = ''medium''" "lower ''low'' = ''low''"
  by code_simp+

lemma weight_medium: "weight_of ''medium'' = 1 / 2"
  by (simp add: weight_of_def severity_weights_def)



lemma risk_numbers_eq:
  "calculate_composite_risk (VStr s) (VNum l) (VNum i) (VNum c) (VNum ts) =
     (let x = weighted_sum (weight_of (lower s)) l i c ts
      in Inr [''composite_score'' \<mapsto> VNum (py_round x 3),
              ''priority'' \<mapsto> VStr (fst (determine_priority x)),
              ''priority_label'' \<mapsto> VStr (snd (determine_priority x)),
              ''components'' \<mapsto> VDict [(''severity'', VNum (weight_of (lower s))),
                                         (''likelihood'', VNum l),
                                         (''impact'', VNum i),
                                         (''confidence'', VNum c),
                                         (''time_sensitivity'', VNum ts)]])"
  by (simp add: calculate_composite_risk_def and_then_def str_lower_def
      to_num_def Let_def split: prod.splits)

section \<open>SLA boundaries of a p1 alert\<close>

text \<open>
  C1 (as stated, refuted): with the clock at the epoch, an alert of priority p1 created
  exactly four hours earlier is not reported as breached but as critical (the deadline is
  the evaluation time, the remaining time is 0, which is not below 0); an alert created
  one hour earlier and an alert created at the evaluation time are not reported as ok
  but as warning (3 and 4 hours remain, fewer than 12).
\<close>

theorem sla_p1_claimed_states_refuted:
  "field (check_sla_breach frozen_world
            [''priority'' \<mapsto> VStr ''p1'', ''created_at'' \<mapsto> VTime (- 14400000000)])
         ''sla_status'' = Some (VStr ''critical'')
   \<and> field (check_sla_breach frozen_world
            [''priority'' \<mapsto> VStr ''p1'', ''created_at'' \<mapsto> VTime (- 14400000000)])
         ''sla_status'' \<noteq> Some (VStr ''breached'')
   \<and> field (check_sla_breach frozen_world
            [''priority'' \<mapsto> VStr ''p1'', ''created_at'' \<mapsto> VTime (- 3600000000)])
         ''sla_status'' = Some (VStr ''warning'')
   \<and> field (check_sla_breach frozen_world
            [''priority'' \<mapsto> VStr ''p1'', ''created_at'' \<mapsto> VTime (- 3600000000)])
         ''sla_status'' \<noteq> Some (VStr ''ok'')
   \<and> field (check_sla_breach frozen_world
            [''priority'' \<mapsto> VStr ''p1'', ''created_at'' \<mapsto> VTime 0])
         ''sla_status'' = Some (VStr ''warning'')
   \<and> field (check_sla_breach frozen_world
            [''priority'' \<mapsto> VStr ''p1'', ''created_at'' \<mapsto> VTime 0])
         ''sla_status'' \<noteq> Some (VStr ''ok'')"
  by (simp add: field_def check_sla_breach_def calculate_sla_deadline_def and_then_def get_def
      frozen_world_def clock_world_def as_datetime_def lookup_def SLA_TARGETS_def add_hours_def
      hours_def hours_us_def Let_def)

text \<open>
  C1 (amended): for an alert of priority p1 checked at the evaluation time \<open>now\<close>
  (the second reading of the clock): created exactly 4 hours before \<open>now\<close> it is critical,
  created 2.5 hours before \<open>now\<close> it is critical, created 1 hour before \<open>now\<close> it is
  warning, created at \<open>now\<close> it is warning, and created 4 hours and one minute before
  \<open>now\<close> it is breached.
\<close>

theorem sla_p1_boundaries:
  "field (check_sla_breach w (alert(''priority'' \<mapsto> VStr ''p1'',
            ''created_at'' \<mapsto> VTime (utcnow w 1 - hours_us 4)))) ''sla_status''
     = Some (VStr ''critical'')
   \<and> field (check_sla_breach w (alert(''priority'' \<mapsto> VStr ''p1'',
            ''created_at'' \<mapsto> VTime (utcnow w 1 - 9000000000)))) ''sla_status''
     = Some (VStr ''critical'')
   \<and> field (check_sla_breach w (alert(''priority'' \<mapsto> VStr ''p1'',
            ''created_at'' \<mapsto> VTime (utcnow w 1 - hours_us 1)))) ''sla_status''
     = Some (VStr ''warning'')
   \<and> field (check_sla_breach w (alert(''priority'' \<mapsto> VStr ''p1'',
            ''created_at'' \<mapsto> VTime (utcnow w 1)))) ''sla_status''
     = Some (VStr ''warning'')
   \<and> field (check_sla_breach w (alert(''priority'' \<mapsto> VStr ''p1'',
            ''created_at'' \<mapsto> VTime (utcnow w 1 - hours_us 4 - 60000000)))) ''sla_status''
     = Some (VStr ''breached'')"
  by (simp add: field_def check_sla_breach_def calculate_sla_deadline_def and_then_def get_def
      as_datetime_def lookup_def SLA_TARGETS_def add_hours_def hours_def hours_us_def Let_def)

section \<open>Priority tiers\<close>


section \<open>Unknown severity\<close>

text \<open>
  C6 (as stated, refuted): an alert whose severity is the unknown value \<^verbatim>\<open>extreme\<close> is
  scored 0.5, an alert that differs only in having severity \<^verbatim>\<open>low\<close> is scored 0.425: the
  unknown severity does not take the weight 0.25 of \<^verbatim>\<open>low\<close>.
\<close>

theorem unknown_severity_not_low:
  "score_value (calculate_alert_score frozen_world [''severity'' \<mapsto> VStr ''extreme''])
     = Some (1 / 2)
   \<and> score_value (calculate_alert_score frozen_world [''severity'' \<mapsto> VStr ''low''])
     = Some (17 / 40)"
  by code_simp

text \<open>
  C6 (amended): when an alert's severity is a string that is not one of critical, high,
  medium and low (in any letter case), scoring gives exactly the result it gives for the
  severity \<^verbatim>\<open>medium\<close>, whose weight is 0.5: it does not fail where \<^verbatim>\<open>medium\<close> would not.
  An alert with no severity at all is scored as \<^verbatim>\<open>low\<close>.
\<close>

theorem unknown_severity_scored_as_medium:
  assumes "severity_weights (lower s) = None"
  shows "weight_of (lower s) = 1 / 2
     \<and> calculate_alert_score w (alert(''severity'' \<mapsto> VStr s))
         = calculate_alert_score w (alert(''severity'' \<mapsto> VStr ''medium''))
     \<and> calculate_alert_score w (alert(''severity'' := None))
         = calculate_alert_score w (alert(''severity'' \<mapsto> VStr ''low''))"
proof -
  have w: "weight_of (lower s) = 1 / 2"
    using assms by (simp add: weight_of_def)
  have "calculate_composite_risk (VStr s) l i c ts
          = calculate_composite_risk (VStr ''medium'') l i c ts" for l i c ts
    by (simp add: calculate_composite_risk_def and_then_def str_lower_def w weight_medium
        split: sum.splits)
  then show ?thesis
    by (simp add: w calculate_alert_score_def score_alert_def get_def)
qed

theorem unknown_severity_scored_as_medium_witness:
  "severity_weights (lower ''Extreme'') = None
   \<and> weight_of (lower ''Extreme'') = 1 / 2
   \<and> calculate_alert_score frozen_world [''severity'' \<mapsto> VStr ''Extreme'']
       = calculate_alert_score frozen_world [''severity'' \<mapsto> VStr ''medium'']"
proof -
  have h: "severity_weights (lower ''Extreme'') = None"
    by code_simp
  show ?thesis
    using h unknown_severity_scored_as_medium [OF h, of frozen_world Map.empty] by simp
qed

section \<open>Stock health\<close>

text \<open>
  C7 (the code departs from the claim): with a current stock of 0 and a reorder point of
  10 the ratio is 0, below 0.5, yet no \<^verbatim>\<open>stock_health\<close> is set; with a current stock of 5
  and a reorder point of 0 the ratio is 500, yet no \<^verbatim>\<open>stock_health\<close> is set either. The
  guard tests the truth value of both fields, and 0 is false.
\<close>

theorem stock_health_skipped_on_zero:
  "field (enrich_with_product_context Map.empty
            [''current_stock'' \<mapsto> VNum 0, ''reorder_point'' \<mapsto> VNum 10]) ''stock_health''
     = None
   \<and> field (enrich_with_product_context Map.empty
            [''current_stock'' \<mapsto> VNum 0, ''reorder_point'' \<mapsto> VNum 10]) ''current_stock''
     = Some (VNum 0)
   \<and> field (enrich_with_product_context Map.empty
            [''current_stock'' \<mapsto> VNum 5, ''reorder_point'' \<mapsto> VNum 0]) ''stock_health''
     = None"
  by (simp add: enrich_with_product_context_def get_def field_def)

lemma stock_health_nonzero:
  "c \<noteq> 0 \<Longrightarrow> r \<noteq> 0 \<Longrightarrow> r + 1 / 100 \<noteq> 0 \<Longrightarrow>
   field (enrich_with_product_context alert
            (product(''current_stock'' \<mapsto> VNum c, ''reorder_point'' \<mapsto> VNum r)))
         ''stock_health''
     = Some (VStr (let ratio = c / (r + 1 / 100)
                   in if ratio < 1 / 2 then ''critical''
                      else if ratio < 1 then ''warning'' else ''healthy''))"
  by (simp add: enrich_with_product_context_def get_def field_def item_def and_then_def
      to_num_def Let_def)

section \<open>Similarity of an alert with itself\<close>





section \<open>Scoring never raises\<close>

lemma determine_priority_tier: "fst (determine_priority x) \<in> tiers"
  by (simp add: determine_priority_def tiers_def)

lemma risk_fields:
  "calculate_composite_risk sv l i c ts = Inr r \<Longrightarrow>
   \<exists>x p. r ''composite_score'' = Some (VNum x) \<and> r ''priority'' = Some (VStr p) \<and> p \<in> tiers"
  using determine_priority_tier
  by (auto simp: calculate_composite_risk_def and_then_def Let_def split: sum.splits prod.splits)
     (metis fst_conv)+

lemma score_alert_fields:
  "score_alert w alert = Inr r \<Longrightarrow>
   \<exists>x p. r ''composite_score'' = Some (VNum x) \<and> r ''priority'' = Some (VStr p) \<and> p \<in> tiers"
  by (auto simp: score_alert_def and_then_def Let_def split: sum.splits dest!: risk_fields)

lemma alert_score_returns:
  "\<exists>r x p. calculate_alert_score w alert = Inr r \<and> r ''composite_score'' = Some (VNum x)
      \<and> r ''priority'' = Some (VStr p) \<and> p \<in> tiers"
proof (cases "score_alert w alert")
  case (Inl e)
  then show ?thesis by (simp add: calculate_alert_score_def tiers_def exI[of _ "1 / 2"])
next
  case (Inr r)
  then show ?thesis using score_alert_fields[OF Inr] by (simp add: calculate_alert_score_def)
qed

lemma missing_inputs_neutral:
  "calculate_alert_score w (alert(''confidence'' := None))
     = calculate_alert_score w (alert(''confidence'' \<mapsto> VNum (1 / 2)))"
  "calculate_alert_score w (alert(''impact_score'' := None))
     = calculate_alert_score w (alert(''impact_score'' \<mapsto> VNum (1 / 2)))"
  "calculate_alert_score w (alert(''likelihood'' := None))
     = calculate_alert_score w (alert(''likelihood'' \<mapsto> VNum (1 / 2)))"
  by (simp_all add: calculate_alert_score_def score_alert_def get_def)

text \<open>
  C8: \<open>calculate_alert_score\<close> never raises: for every runtime and every alert it returns
  a dictionary with a numeric \<^verbatim>\<open>composite_score\<close> and a \<^verbatim>\<open>priority\<close> among p1 to p4. A
  missing confidence, impact or likelihood is scored as 0.5. Whenever the body of the
  \<^verbatim>\<open>try\<close> block raises, the result is the neutral one: score 0.5 and priority p3.
\<close>

theorem alert_scoring_total:
  "(\<exists>r x p. calculate_alert_score w alert = Inr r \<and> r ''composite_score'' = Some (VNum x)
      \<and> r ''priority'' = Some (VStr p) \<and> p \<in> tiers)
   \<and> calculate_alert_score w (alert(''confidence'' := None))
       = calculate_alert_score w (alert(''confidence'' \<mapsto> VNum (1 / 2)))
   \<and> calculate_alert_score w (alert(''impact_score'' := None))
       = calculate_alert_score w (alert(''impact_score'' \<mapsto> VNum (1 / 2)))
   \<and> calculate_alert_score w (alert(''likelihood'' := None))
       = calculate_alert_score w (alert(''likelihood'' \<mapsto> VNum (1 / 2)))
   \<and> (\<forall>e. score_alert w alert = Inl e \<longrightarrow>
         field (calculate_alert_score w alert) ''composite_score'' = Some (VNum (1 / 2))
       \<and> field (calculate_alert_score w alert) ''priority'' = Some (VStr ''p3''))"
proof (intro conjI allI impI)
  show "\<exists>r x p. calculate_alert_score w alert = Inr r \<and> r ''composite_score'' = Some (VNum x)
      \<and> r ''priority'' = Some (VStr p) \<and> p \<in> tiers"
    by (rule alert_score_returns)
qed (simp_all add: missing_inputs_neutral, simp_all add: calculate_alert_score_def field_def)

text \<open>
  The witness: an alert whose confidence is \<^verbatim>\<open>None\<close>, as the API accepts it. The
  multiplication raises \<^verbatim>\<open>TypeError\<close> and the neutral result is returned.
\<close>

theorem alert_scoring_total_witness:
  "score_alert frozen_world [''confidence'' \<mapsto> VNone] = Inl TypeError
   \<and> field (calculate_alert_score frozen_world [''confidence'' \<mapsto> VNone]) ''composite_score''
       = Some (VNum (1 / 2))
   \<and> field (calculate_alert_score frozen_world [''confidence'' \<mapsto> VNone]) ''priority''
       = Some (VStr ''p3'')"
proof -
  have h: "score_alert frozen_world [''confidence'' \<mapsto> VNone] = Inl TypeError"
    by (simp add: score_alert_def get_def as_datetime_def frozen_world_def clock_world_def
        time_diff_def and_then_def calculate_composite_risk_def str_lower_def to_num_def Let_def)
  show ?thesis
    using h alert_scoring_total [of frozen_world "[''confidence'' \<mapsto> VNone]"] by blast
qed

section \<open>Batch scoring\<close>









section \<open>Monotonicity of the score\<close>

lemma round_half_even_bounds: "\<lfloor>y\<rfloor> \<le> round_half_even y \<and> round_half_even y \<le> \<lfloor>y\<rfloor> + 1"
  by (simp add: round_half_even_def Let_def)

lemma round_half_even_mono:
  assumes "a \<le> b"
  shows "round_half_even a \<le> round_half_even b"
proof (cases "\<lfloor>a\<rfloor> = \<lfloor>b\<rfloor>")
  case True
  with assms show ?thesis
    by (auto simp: round_half_even_def Let_def)
next
  case False
  with assms have "\<lfloor>a\<rfloor> < \<lfloor>b\<rfloor>" using floor_mono[OF assms] by linarith
  then have "round_half_even a \<le> \<lfloor>b\<rfloor>" using round_half_even_bounds[of a] by linarith
  then show ?thesis using round_half_even_bounds[of b] by linarith
qed

lemma py_round_mono:
  assumes "x \<le> y"
  shows "py_round x n \<le> py_round y n"
proof -
  from assms have "x * 10 ^ n \<le> y * 10 ^ n" by (simp add: mult_right_mono)
  then have "round_half_even (x * 10 ^ n) \<le> round_half_even (y * 10 ^ n)"
    by (rule round_half_even_mono)
  then show ?thesis by (simp add: py_round_def divide_right_mono)
qed

lemma weighted_sum_mono:
  "0 \<le> ts \<Longrightarrow> s \<le> s' \<Longrightarrow> l \<le> l' \<Longrightarrow> i \<le> i' \<Longrightarrow> c \<le> c' \<Longrightarrow>
   weighted_sum s l i c ts \<le> weighted_sum s' l' i' c' ts"
  unfolding weighted_sum_def
  by (intro mult_right_mono add_mono) simp_all

lemma severity_order_cases:
  "severity_order s = Some a \<Longrightarrow>
   (s = ''critical'' \<and> a = 4) \<or> (s = ''high'' \<and> a = 3) \<or> (s = ''medium'' \<and> a = 2)
     \<or> (s = ''low'' \<and> a = 1)"
  by (auto simp: severity_order_def split: if_splits)

lemma weight_mono:
  "severity_order s = Some a \<Longrightarrow> severity_order s' = Some b \<Longrightarrow> a \<le> b \<Longrightarrow>
   weight_of (lower s) \<le> weight_of (lower s')"
  by (drule severity_order_cases, drule severity_order_cases)
     (auto simp: weight_of_def severity_weights_def)

lemma risk_score_value:
  "score_value (calculate_composite_risk (VStr s) (VNum l) (VNum i) (VNum c) (VNum ts))
     = Some (py_round (weighted_sum (weight_of (lower s)) l i c ts) 3)"
  by (simp add: risk_numbers_eq score_value_def field_def Let_def)

lemma alert_score_value:
  "score_value (calculate_alert_score w (with_signals alert s l i c)) =
     Some (case as_datetime w (get alert ''created_at'' (VTime (utcnow w 0))) of
        Inl e \<Rightarrow> 1 / 2
      | Inr created_at \<Rightarrow>
         (case time_diff (VTime (utcnow w 1)) created_at of
            Inl e \<Rightarrow> 1 / 2
          | Inr us \<Rightarrow> py_round (weighted_sum (weight_of (lower s)) l i c
                         (max (1 / 2) (1 - hours us / 168))) 3))"
proof -
  have g: "get (with_signals alert s l i c) ''created_at'' d = get alert ''created_at'' d" for d
    by (simp add: with_signals_def get_def)
  have h: "get (with_signals alert s l i c) ''severity'' d = VStr s"
    "get (with_signals alert s l i c) ''likelihood'' d = VNum l"
    "get (with_signals alert s l i c) ''impact_score'' d = VNum i"
    "get (with_signals alert s l i c) ''confidence'' d = VNum c" for d
    by (simp_all add: with_signals_def get_def)
  show ?thesis
    by (simp add: score_value_def field_def calculate_alert_score_def score_alert_def g h
        risk_numbers_eq and_then_def Let_def split: sum.splits)
qed

text \<open>
  C5: let the severity rise along low, medium, high, critical (the ranks of
  \<open>severity_order\<close>) and likelihood, impact and confidence rise or stay, everything else
  fixed. Then the \<^verbatim>\<open>composite_score\<close> returned by \<open>calculate_composite_risk\<close> does not
  decrease, for every fixed time sensitivity that is not negative (the function documents
  the range 0 to 1), and the \<^verbatim>\<open>composite_score\<close> returned by \<open>calculate_alert_score\<close> for
  an alert does not decrease, with the same runtime and the same other fields (its time
  sensitivity is at least 0.5).
\<close>

theorem composite_score_monotone:
  assumes "severity_order s = Some a" and "severity_order s' = Some b" and "a \<le> b"
    and "l \<le> l'" and "i \<le> i'" and "c \<le> c'"
  shows "(0 \<le> ts \<longrightarrow>
            (\<exists>x y. score_value (calculate_composite_risk (VStr s) (VNum l) (VNum i) (VNum c)
                                  (VNum ts)) = Some x
                 \<and> score_value (calculate_composite_risk (VStr s') (VNum l') (VNum i') (VNum c')
                                  (VNum ts)) = Some y
                 \<and> x \<le> y))
       \<and> (\<exists>x y. score_value (calculate_alert_score w (with_signals alert s l i c)) = Some x
               \<and> score_value (calculate_alert_score w (with_signals alert s' l' i' c')) = Some y
               \<and> x \<le> y)"
proof -
  have m: "0 \<le> t \<Longrightarrow> py_round (weighted_sum (weight_of (lower s)) l i c t) 3
      \<le> py_round (weighted_sum (weight_of (lower s')) l' i' c' t) 3" for t
    by (intro py_round_mono weighted_sum_mono weight_mono[OF assms(1,2,3)] assms)
  have m2: "py_round (weighted_sum (weight_of (lower s)) l i c (max (1 / 2) t)) 3
      \<le> py_round (weighted_sum (weight_of (lower s')) l' i' c' (max (1 / 2) t)) 3" for t
    by (rule m) simp
  show ?thesis
    unfolding alert_score_value risk_score_value
    by (auto split: sum.splits intro: m m2)
qed

theorem composite_score_monotone_witness:
  "(\<exists>x y. score_value (calculate_composite_risk (VStr ''low'') (VNum (1 / 10)) (VNum (2 / 10))
                          (VNum (3 / 10)) (VNum 1)) = Some x
         \<and> score_value (calculate_composite_risk (VStr ''critical'') (VNum (1 / 2))
                          (VNum (2 / 10)) (VNum (9 / 10)) (VNum 1)) = Some y
         \<and> x \<le> y)
   \<and> (\<exists>x y. score_value (calculate_alert_score frozen_world
                 (with_signals Map.empty ''low'' (1 / 10) (2 / 10) (3 / 10))) = Some x
           \<and> score_value (calculate_alert_score frozen_world
                 (with_signals Map.empty ''critical'' (1 / 2) (2 / 10) (9 / 10))) = Some y
           \<and> x \<le> y)"
proof -
  have h: "severity_order ''low'' = Some 1" "severity_order ''critical'' = Some 4"
    "(1 :: int) \<le> 4" "(1 / 10 :: rat) \<le> 1 / 2" "(2 / 10 :: rat) \<le> 2 / 10"
    "(3 / 10 :: rat) \<le> 9 / 10"
    by (simp_all add: severity_order_def)
  have t: "(0 :: rat) \<le> 1" by simp
  show ?thesis
    using t composite_score_monotone [OF h, of 1 frozen_world Map.empty] by blast
qed

section \<open>Escalation\<close>

lemma deadline_cong:
  "a ''priority'' = b ''priority'' \<Longrightarrow> a ''created_at'' = b ''created_at'' \<Longrightarrow>
   calculate_sla_deadline w a = calculate_sla_deadline w b"
  by (simp add: calculate_sla_deadline_def get_def)

lemma escalation_cong:
  "a ''priority'' = b ''priority'' \<Longrightarrow> a ''created_at'' = b ''created_at'' \<Longrightarrow>
   determine_escalation w a = determine_escalation w b"
  by (simp add: determine_escalation_def check_sla_breach_def get_def deadline_cong[of a b])

lemma escalation_table:
  "(case calculate_sla_deadline w (alert(''priority'' \<mapsto> VStr (tier_name t))) of
      Inl e \<Rightarrow> determine_escalation w (alert(''priority'' \<mapsto> VStr (tier_name t))) = Inl e
    | Inr deadline \<Rightarrow>
        (let st = spec_sla_state (hours (deadline - utcnow w 1)); rk = spec_breach_risk st
         in field (check_sla_breach w (alert(''priority'' \<mapsto> VStr (tier_name t)))) ''sla_status''
              = Some (VStr (sla_name st))
          \<and> field (check_sla_breach w (alert(''priority'' \<mapsto> VStr (tier_name t)))) ''breach_risk''
              = Some (VStr (risk_name rk))
          \<and> determine_escalation w (alert(''priority'' \<mapsto> VStr (tier_name t)))
              = Inr (level_value (spec_escalation t st rk))))"
  by (cases t)
     (simp_all add: determine_escalation_def check_sla_breach_def and_then_def item_def get_def
       field_def spec_sla_state_def Let_def split: sum.splits)

lemma p1_always_escalates:
  "determine_escalation w (alert(''priority'' \<mapsto> VStr ''p1'')) \<noteq> Inr VNone"
  by (simp add: determine_escalation_def check_sla_breach_def and_then_def item_def get_def
       Let_def split: sum.splits)

lemma process_alert_escalation:
  assumes "process_alert w alert product history = Inr out"
  shows "\<exists>lvl. out ''escalation_level'' = Some lvl
     \<and> out ''requires_escalation'' = Some (VBool (lvl \<noteq> VNone))
     \<and> determine_escalation (after 5 w) out = Inr lvl"
proof -
  from assms obtain processed lvl where
    lvl: "determine_escalation (after 5 w) processed = Inr lvl" and
    out: "out = processed(''escalation_level'' \<mapsto> lvl,
            ''requires_escalation'' \<mapsto> VBool (lvl \<noteq> VNone),
            ''recommended_actions'' \<mapsto> VList (map VStr (generate_recommendations
               (processed(''escalation_level'' \<mapsto> lvl,
                  ''requires_escalation'' \<mapsto> VBool (lvl \<noteq> VNone))))))"
    by (auto simp: process_alert_def and_then_def Let_def split: sum.splits)
  have "determine_escalation (after 5 w) out = determine_escalation (after 5 w) processed"
    by (rule escalation_cong) (simp_all add: out)
  then show ?thesis using lvl by (simp add: out)
qed

lemma example_alert_processed:
  "field (process_alert ticking_world example_alert None None) ''escalation_level''
     = Some (VStr ''manager'')"
  "field (process_alert ticking_world example_alert None None) ''sla_status''
     = Some (VStr ''warning'')"
  by (simp_all add: field_def process_alert_def calculate_alert_score_def score_alert_def
      calculate_composite_risk_def calculate_sla_deadline_def check_sla_breach_def
      determine_escalation_def ticking_world_def clock_world_def example_alert_def
      and_then_def get_def item_def as_datetime_def time_diff_def str_lower_def to_num_def
      lookup_def add_hours_def hours_def hours_us_def after_def SLA_TARGETS_def weight_of_def
      severity_weights_def weighted_sum_def determine_priority_def Let_def)

text \<open>
  C3: for every alert whose priority is one of the four tiers, \<open>determine_escalation\<close>
  returns the level of the transition table of section 4.5 applied to the tier and to the
  SLA state that \<open>check_sla_breach\<close> reports for that alert (when the deadline cannot be
  computed both raise the same exception). An alert of priority p1 is never given the
  level none. In the record returned by \<open>process_alert\<close> the escalation level is the one
  \<open>determine_escalation\<close> gives for that record, and \<^verbatim>\<open>requires_escalation\<close> is true
  exactly when the level is not none.
\<close>

theorem escalation_follows_table:
  "(case calculate_sla_deadline w (alert(''priority'' \<mapsto> VStr (tier_name t))) of
      Inl e \<Rightarrow> determine_escalation w (alert(''priority'' \<mapsto> VStr (tier_name t))) = Inl e
    | Inr deadline \<Rightarrow>
        (let st = spec_sla_state (hours (deadline - utcnow w 1)); rk = spec_breach_risk st
         in field (check_sla_breach w (alert(''priority'' \<mapsto> VStr (tier_name t)))) ''sla_status''
              = Some (VStr (sla_name st))
          \<and> field (check_sla_breach w (alert(''priority'' \<mapsto> VStr (tier_name t)))) ''breach_risk''
              = Some (VStr (risk_name rk))
          \<and> determine_escalation w (alert(''priority'' \<mapsto> VStr (tier_name t)))
              = Inr (level_value (spec_escalation t st rk))))
   \<and> determine_escalation w (alert(''priority'' \<mapsto> VStr ''p1'')) \<noteq> Inr VNone
   \<and> (\<forall>out. process_alert w alert product history = Inr out \<longrightarrow>
         (\<exists>lvl. out ''escalation_level'' = Some lvl
            \<and> out ''requires_escalation'' = Some (VBool (lvl \<noteq> VNone))
            \<and> determine_escalation (after 5 w) out = Inr lvl))"
  using escalation_table[of w alert t] p1_always_escalates[of w alert]
    process_alert_escalation[of w alert product history]
  by blast

text \<open>
  The witness: the end-to-end example of the specification is processed without an
  exception; its level is manager and it requires escalation.
\<close>

theorem escalation_follows_table_witness:
  "\<exists>out. process_alert ticking_world example_alert None None = Inr out
      \<and> out ''escalation_level'' = Some (VStr ''manager'')
      \<and> out ''requires_escalation'' = Some (VBool True)"
proof -
  obtain out where out: "process_alert ticking_world example_alert None None = Inr out"
    using example_alert_processed(1) by (cases "process_alert ticking_world example_alert None None")
      (simp_all add: field_def)
  have lvl: "out ''escalation_level'' = Some (VStr ''manager'')"
    using example_alert_processed(1) out by (simp add: field_def)
  show ?thesis
    using out lvl escalation_follows_table [of ticking_world example_alert P1 None None]
    by auto
qed

section \<open>Merging duplicates\<close>

lemma get_confidence:
  "numeric_confidence a \<Longrightarrow> get a ''confidence'' (VNum 0) = VNum (confidence_of a)"
  by (auto simp: numeric_confidence_def confidence_of_def get_def)

lemma py_gt_numeric:
  "numeric_confidence a \<Longrightarrow> numeric_confidence b \<Longrightarrow>
   py_gt (get a ''confidence'' (VNum 0)) (get b ''confidence'' (VNum 0))
     = Inr (confidence_of b < confidence_of a)"
  by (simp add: get_confidence)


lemma and_then_Inr: "and_then r f = Inr y \<longleftrightarrow> (\<exists>x. r = Inr x \<and> f x = Inr y)"
  by (cases r) (simp_all add: and_then_def)

lemma item_Inr: "item d k = Inr v \<longleftrightarrow> d k = Some v"
  by (simp add: item_def split: option.splits)

lemma merge_alerts_fields:
  assumes "merge_alerts w p d = Inr m" "numeric_confidence p" "numeric_confidence d"
  shows "\<exists>rp rd. severity_rank p = Inr rp \<and> severity_rank d = Inr rd
     \<and> m ''severity'' = (if rp < rd then d ''severity'' else p ''severity'')
     \<and> (rp < rd \<longrightarrow> d ''severity'' \<noteq> None)
     \<and> m ''confidence'' = (if confidence_of p < confidence_of d then d ''confidence''
                            else p ''confidence'')
     \<and> (confidence_of p < confidence_of d \<longrightarrow> d ''confidence'' \<noteq> None)"
proof -
  from assms(1) obtain rd rp m1 m2 m3 ids where
    rd: "severity_rank d = Inr rd" and rp: "severity_rank p = Inr rp" and
    m1: "(if rp < rd then and_then (item d ''severity'') (\<lambda>v. Inr (p(''severity'' \<mapsto> v)))
          else Inr p) = Inr m1" and
    m2: "(if confidence_of p < confidence_of d
          then and_then (item d ''confidence'') (\<lambda>v. Inr (m1(''confidence'' \<mapsto> v)))
          else Inr m1) = Inr m2" and
    m3: "(if truthy (get d ''description'' VNone)
          then and_then (item m2 ''description'') (\<lambda>old.
               and_then (item d ''description'') (\<lambda>d.
               and_then (iadd_str old (CHR 0x0A # ''[Merged] '' @ format_value w d))
                 (\<lambda>new. Inr (m2(''description'' \<mapsto> new)))))
          else Inr m2) = Inr m3" and
    m: "m = m3(''merged_alert_ids'' \<mapsto> ids)"
    unfolding merge_alerts_def Let_def and_then_Inr severity_rank_def
      py_gt_numeric[OF assms(3,2)]
    by auto
  have a: "m1 ''severity'' = (if rp < rd then d ''severity'' else p ''severity'')"
    "rp < rd \<longrightarrow> d ''severity'' \<noteq> None" "m1 ''confidence'' = p ''confidence''"
    using m1 by (auto simp: and_then_Inr item_Inr split: if_splits)
  have b: "m2 ''severity'' = m1 ''severity''"
    "m2 ''confidence'' = (if confidence_of p < confidence_of d then d ''confidence''
                          else m1 ''confidence'')"
    "confidence_of p < confidence_of d \<longrightarrow> d ''confidence'' \<noteq> None"
    using m2 by (auto simp: and_then_Inr item_Inr split: if_splits)
  have c: "m3 ''severity'' = m2 ''severity''" "m3 ''confidence'' = m2 ''confidence''"
    using m3 by (auto simp: and_then_Inr item_Inr split: if_splits)
  show ?thesis
    using rd rp a b c by (simp add: m)
qed


lemma severity_rank_cong:
  "a ''severity'' = b ''severity'' \<Longrightarrow> severity_rank a = severity_rank b"
  by (simp add: severity_rank_def get_def)


lemma severity_rank_nonneg: "severity_rank a = Inr r \<Longrightarrow> 0 \<le> r"
proof -
  assume h: "severity_rank a = Inr r"
  show ?thesis
  proof (cases "get a ''severity'' (VStr ''low'')")
    case (VStr s)
    then show ?thesis using h
      by (cases "severity_order s") (auto simp: severity_rank_def lookup_def dest!: severity_order_cases)
  qed (use h in \<open>auto simp: severity_rank_def lookup_def\<close>)
qed


lemma positive_rank_string:
  assumes "severity_rank a = Inr r" "0 < r" "a ''severity'' = Some x"
  shows "\<exists>s. x = VStr s \<and> severity_order s = Some r"
proof (cases x)
  case (VStr s)
  then show ?thesis using assms
    by (cases "severity_order s") (simp_all add: severity_rank_def lookup_def get_def)
qed (use assms in \<open>simp_all add: severity_rank_def lookup_def get_def\<close>)

lemma severity_rank_inj:
  assumes "severity_rank a = Inr r" "severity_rank b = Inr r" "0 < r"
    "a ''severity'' = Some x" "b ''severity'' = Some y"
  shows "x = y"
proof -
  from positive_rank_string[OF assms(1,3,4)] obtain s where
    s: "x = VStr s" "severity_order s = Some r" by blast
  from positive_rank_string[OF assms(2,3,5)] obtain t where
    t: "y = VStr t" "severity_order t = Some r" by blast
  show ?thesis
    using s(1) t(1) severity_order_cases[OF s(2)] severity_order_cases[OF t(2)] by auto
qed

lemma confidence_inj:
  "numeric_confidence a \<Longrightarrow> numeric_confidence b \<Longrightarrow> confidence_of a = confidence_of b \<Longrightarrow>
   a ''confidence'' \<noteq> None \<Longrightarrow> b ''confidence'' \<noteq> None \<Longrightarrow> a ''confidence'' = b ''confidence''"
  by (auto simp: numeric_confidence_def confidence_of_def)

lemma numeric_confidence_cong:
  "a ''confidence'' = b ''confidence'' \<Longrightarrow> numeric_confidence a = numeric_confidence b"
  by (simp add: numeric_confidence_def)

lemma confidence_of_cong:
  "a ''confidence'' = b ''confidence'' \<Longrightarrow> confidence_of a = confidence_of b"
  by (simp add: confidence_of_def)


lemma merge_alerts_summary:
  assumes "merge_alerts w p d = Inr m" "numeric_confidence p" "numeric_confidence d"
    "severity_rank p = Inr rp" "severity_rank d = Inr rd"
  shows "m ''severity'' = (if rp < rd then d ''severity'' else p ''severity'')"
    and "rp < rd \<Longrightarrow> d ''severity'' \<noteq> None"
    and "m ''confidence'' = (if confidence_of p < confidence_of d then d ''confidence''
                            else p ''confidence'')"
    and "confidence_of p < confidence_of d \<Longrightarrow> d ''confidence'' \<noteq> None"
    and "severity_rank m = Inr (max rp rd)"
    and "numeric_confidence m"
    and "confidence_of m = max (confidence_of p) (confidence_of d)"
proof -
  from merge_alerts_fields[OF assms(1,2,3)] obtain rp' rd' where
    f': "severity_rank p = Inr rp'" "severity_rank d = Inr rd'"
    "m ''severity'' = (if rp' < rd' then d ''severity'' else p ''severity'')"
    "rp' < rd' \<longrightarrow> d ''severity'' \<noteq> None"
    "m ''confidence'' = (if confidence_of p < confidence_of d then d ''confidence''
                            else p ''confidence'')"
    "confidence_of p < confidence_of d \<longrightarrow> d ''confidence'' \<noteq> None"
    by blast
  have e: "rp' = rp" "rd' = rd" using f'(1,2) assms(4,5) by simp_all
  show s: "m ''severity'' = (if rp < rd then d ''severity'' else p ''severity'')"
    using f'(3) unfolding e .
  show "rp < rd \<Longrightarrow> d ''severity'' \<noteq> None"
    using f'(4) unfolding e by blast
  show c: "m ''confidence'' = (if confidence_of p < confidence_of d then d ''confidence''
                            else p ''confidence'')"
    by (rule f'(5))
  show "confidence_of p < confidence_of d \<Longrightarrow> d ''confidence'' \<noteq> None"
    using f'(6) by blast
  show "severity_rank m = Inr (max rp rd)"
  proof (cases "rp < rd")
    case True
    then have "m ''severity'' = d ''severity''" using s by simp
    then have "severity_rank m = severity_rank d" by (rule severity_rank_cong)
    then show ?thesis using True assms(5) by (simp add: max_def)
  next
    case False
    then have "m ''severity'' = p ''severity''" using s by simp
    then have "severity_rank m = severity_rank p" by (rule severity_rank_cong)
    then show ?thesis using False assms(4) by (simp add: max_def)
  qed
  show "numeric_confidence m"
  proof (cases "confidence_of p < confidence_of d")
    case True
    then have "m ''confidence'' = d ''confidence''" using c by simp
    then show ?thesis using assms(3) by (simp add: numeric_confidence_def)
  next
    case False
    then have "m ''confidence'' = p ''confidence''" using c by simp
    then show ?thesis using assms(2) by (simp add: numeric_confidence_def)
  qed
  show "confidence_of m = max (confidence_of p) (confidence_of d)"
  proof (cases "confidence_of p < confidence_of d")
    case True
    then have "m ''confidence'' = d ''confidence''" using c by simp
    then have "confidence_of m = confidence_of d" by (rule confidence_of_cong)
    then show ?thesis using True by (simp add: max_def)
  next
    case False
    then have "m ''confidence'' = p ''confidence''" using c by simp
    then have "confidence_of m = confidence_of p" by (rule confidence_of_cong)
    then show ?thesis using False by (simp add: max_def)
  qed
qed


text \<open>
  What does hold: when both orders of merging return and the three confidences are numbers
  (or absent), the final severity and the final confidence do not depend on the order.
\<close>

lemma merge_both_order:
  assumes "merge_both w p d1 d2 = Inr m12" and "merge_both w p d2 d1 = Inr m21"
    and "numeric_confidence p" and "numeric_confidence d1" and "numeric_confidence d2"
  shows "m12 ''severity'' = m21 ''severity'' \<and> m12 ''confidence'' = m21 ''confidence''"
proof -
  from assms(1) obtain m1 where m1: "merge_alerts w p d1 = Inr m1" "merge_alerts w m1 d2 = Inr m12"
    unfolding merge_both_def and_then_Inr by blast
  from assms(2) obtain m2 where m2: "merge_alerts w p d2 = Inr m2" "merge_alerts w m2 d1 = Inr m21"
    unfolding merge_both_def and_then_Inr by blast
  from merge_alerts_fields[OF m1(1) assms(3,4)] obtain r0 r1 where
    r: "severity_rank p = Inr r0" "severity_rank d1 = Inr r1" by blast
  from merge_alerts_fields[OF m2(1) assms(3,5)] obtain r2 where
    r2: "severity_rank d2 = Inr r2" by blast
  note a = merge_alerts_summary[OF m1(1) assms(3,4) r(1,2)]
  note b = merge_alerts_summary[OF m2(1) assms(3,5) r(1) r2]
  note c = merge_alerts_summary[OF m1(2) a(6) assms(5) a(5) r2]
  note d = merge_alerts_summary[OF m2(2) b(6) assms(4) b(5) r(2)]
  have pos: "0 \<le> r0" using r(1) by (rule severity_rank_nonneg)
  have e12: "m12 ''severity'' = (if max r0 r1 < r2 then d2 ''severity''
                else if r0 < r1 then d1 ''severity'' else p ''severity'')"
    using c(1) a(1) by simp
  have e21: "m21 ''severity'' = (if max r0 r2 < r1 then d1 ''severity''
                else if r0 < r2 then d2 ''severity'' else p ''severity'')"
    using d(1) b(1) by simp
  have sev: "m12 ''severity'' = m21 ''severity''"
  proof (cases "r1 = r2 \<and> r0 < r1")
    case True
    then obtain x y where xy: "d1 ''severity'' = Some x" "d2 ''severity'' = Some y"
      using a(2) b(2) by auto
    have p1: "0 < r1" using True pos by linarith
    have r2': "severity_rank d2 = Inr r1" using r2 True by simp
    have "x = y" by (rule severity_rank_inj[OF r(2) r2' p1 xy])
    then show ?thesis using True xy e12 e21 by simp
  next
    case False
    then show ?thesis unfolding e12 e21 by (simp add: max_def) linarith
  qed
  let ?c0 = "confidence_of p" and ?c1 = "confidence_of d1" and ?c2 = "confidence_of d2"
  have f12: "m12 ''confidence'' = (if max ?c0 ?c1 < ?c2 then d2 ''confidence''
                else if ?c0 < ?c1 then d1 ''confidence'' else p ''confidence'')"
    using c(3) a(3,7) by simp
  have f21: "m21 ''confidence'' = (if max ?c0 ?c2 < ?c1 then d1 ''confidence''
                else if ?c0 < ?c2 then d2 ''confidence'' else p ''confidence'')"
    using d(3) b(3,7) by simp
  have conf: "m12 ''confidence'' = m21 ''confidence''"
  proof (cases "?c1 = ?c2 \<and> ?c0 < ?c1")
    case True
    then have "d1 ''confidence'' = d2 ''confidence''"
      using confidence_inj[OF assms(4,5)] a(4) b(4) by simp
    then show ?thesis using True f12 f21 by simp
  next
    case False
    then show ?thesis unfolding f12 f21 by (simp add: max_def) linarith
  qed
  show ?thesis using sev conf by simp
qed

text \<open>
  C4 (the code departs from the claim): a primary whose severity is the unknown value
  \<^verbatim>\<open>urgent\<close>, a first duplicate with no severity field and a second duplicate of severity
  \<^verbatim>\<open>high\<close>. Merging the first duplicate and then the second raises \<^verbatim>\<open>KeyError\<close>: the missing
  severity is ranked as \<^verbatim>\<open>low\<close>, above the unknown one, and is then read with
  \<^verbatim>\<open>duplicate['severity']\<close>. Merging the second duplicate and then the first returns a
  record of severity \<^verbatim>\<open>high\<close>.
\<close>

theorem merge_order_key_error:
  "merge_both w [''severity'' \<mapsto> VStr ''urgent''] [''id'' \<mapsto> VNum 1]
       [''severity'' \<mapsto> VStr ''high'', ''id'' \<mapsto> VNum 2] = Inl KeyError
   \<and> field (merge_both w [''severity'' \<mapsto> VStr ''urgent'']
              [''severity'' \<mapsto> VStr ''high'', ''id'' \<mapsto> VNum 2] [''id'' \<mapsto> VNum 1])
         ''severity'' = Some (VStr ''high'')"
  by (simp add: merge_both_def merge_alerts_def and_then_def lookup_def get_def item_def
      severity_order_def add_list_def field_def Let_def)

end
